theory Spec2Isabelle
  imports Complex_Main
begin

section \<open>The task aggregator \<^verbatim>\<open>.codex/aggregate_tasks.mjs\<close>\<close>

text \<open>
  The script fetches issues and pull requests from the GitHub search API and pages from a
  Notion database, maps both to one task shape, counts totals and writes
  \<^verbatim>\<open>out/tasks.json\<close>. This theory embeds the script function by function.

  Conventions of the embedding:
  \<^item> a JavaScript string is a \<^typ>\<open>string\<close> of bytes; \<^verbatim>\<open>toLowerCase\<close>,
    \<^verbatim>\<open>trim\<close>, \<^verbatim>\<open>\s\<close>, \<^verbatim>\<open>\d\<close> and \<^verbatim>\<open>\b\<close> are modelled on ASCII
    (a byte above 127 is neither a letter, a digit nor a blank);
  \<^item> a JavaScript number is an exact \<^typ>\<open>real\<close>, with \<open>NaN\<close> added where the script
    can compute it; rounding, signed zero and the infinities are not modelled;
  \<^item> the two conversions of the JavaScript runtime between strings and numbers are
    parameters (\<open>StringToNumber\<close>, \<open>NumberToString\<close>): every theorem holds for every
    runtime;
  \<^item> an HTTP call is a function from the request to either an error message (the thrown
    \<^verbatim>\<open>Error\<close>) or the parsed body, so a \<^verbatim>\<open>throw\<close> is the value \<open>Inl\<close>;
  \<^item> the Notion paging loop \<^verbatim>\<open>while (true)\<close> may run forever; it is a partial function
    whose value \<open>None\<close> is "does not return".
  \<^item> a response is well formed: a field the script reads without a guard (an item's
    \<^verbatim>\<open>repository_url\<close>, the \<^verbatim>\<open>title\<close> array of a title property) is present, so the
    \<^verbatim>\<open>TypeError\<close> of reading it when missing is not modelled.
\<close>

subsection \<open>JavaScript values\<close>

datatype jsnum = NaN | Fin real

datatype jsval =
    JUndefined
  | JBool bool
  | JNum real
  | JStr string
  | JArr "string list"

record runtime =
  StringToNumber :: "string \<Rightarrow> jsnum"
  NumberToString :: "real \<Rightarrow> string"

text \<open>Truthiness, as \<^verbatim>\<open>!v\<close>, \<^verbatim>\<open>||\<close> and \<^verbatim>\<open>filter(Boolean)\<close> use it: an array is truthy
  even when empty.\<close>

fun truthy :: "jsval \<Rightarrow> bool" where
  "truthy JUndefined = False"
| "truthy (JBool b) = b"
| "truthy (JNum r) = (r \<noteq> 0)"
| "truthy (JStr s) = (s \<noteq> [])"
| "truthy (JArr xs) = True"

text \<open>\<^verbatim>\<open>a || b\<close>.\<close>

definition js_or :: "jsval \<Rightarrow> jsval \<Rightarrow> jsval" where
  "js_or a b = (if truthy a then a else b)"

text \<open>\<^verbatim>\<open>xs.join(sep)\<close> on an array of strings.\<close>

fun join :: "string \<Rightarrow> string list \<Rightarrow> string" where
  "join sep [] = []"
| "join sep [x] = x"
| "join sep (x # y # ys) = x @ sep @ join sep (y # ys)"

text \<open>\<^verbatim>\<open>String(v)\<close> and \<^verbatim>\<open>v.toString()\<close>. The script calls them on truthy values only.\<close>

fun ToString :: "runtime \<Rightarrow> jsval \<Rightarrow> string" where
  "ToString rt JUndefined = ''undefined''"
| "ToString rt (JBool b) = (if b then ''true'' else ''false'')"
| "ToString rt (JNum r) = NumberToString rt r"
| "ToString rt (JStr s) = s"
| "ToString rt (JArr xs) = join '','' xs"

text \<open>\<^verbatim>\<open>Number(v)\<close>, also applied implicitly by \<^verbatim>\<open>></\<close>, \<^verbatim>\<open>/\<close>, \<^verbatim>\<open>Math.min\<close> and
  \<^verbatim>\<open>Math.max\<close>. An array is first turned into its string.\<close>

fun ToNumber :: "runtime \<Rightarrow> jsval \<Rightarrow> jsnum" where
  "ToNumber rt JUndefined = NaN"
| "ToNumber rt (JBool b) = Fin (if b then 1 else 0)"
| "ToNumber rt (JNum r) = Fin r"
| "ToNumber rt (JStr s) = StringToNumber rt s"
| "ToNumber rt (JArr xs) = StringToNumber rt (join '','' xs)"

text \<open>\<^verbatim>\<open>a > b\<close> on numbers: false when either side is NaN.\<close>

fun js_gt :: "jsnum \<Rightarrow> jsnum \<Rightarrow> bool" where
  "js_gt (Fin a) (Fin b) = (a > b)"
| "js_gt _ _ = False"

fun js_div :: "jsnum \<Rightarrow> real \<Rightarrow> jsnum" where
  "js_div (Fin a) d = Fin (a / d)"
| "js_div NaN d = NaN"

text \<open>\<^verbatim>\<open>Math.min\<close> and \<^verbatim>\<open>Math.max\<close>: NaN when an argument is NaN.\<close>

fun Math_min :: "jsnum \<Rightarrow> jsnum \<Rightarrow> jsnum" where
  "Math_min (Fin a) (Fin b) = Fin (min a b)"
| "Math_min _ _ = NaN"

fun Math_max :: "jsnum \<Rightarrow> jsnum \<Rightarrow> jsnum" where
  "Math_max (Fin a) (Fin b) = Fin (max a b)"
| "Math_max _ _ = NaN"

text \<open>\<^verbatim>\<open>x || d\<close> on a number: NaN and 0 are falsy.\<close>

fun num_or :: "jsnum \<Rightarrow> real \<Rightarrow> real" where
  "num_or NaN d = d"
| "num_or (Fin r) d = (if r = 0 then d else r)"

subsection \<open>Strings\<close>

definition upper_chars :: string where
  "upper_chars = ''ABCDEFGHIJKLMNOPQRSTUVWXYZ''"

definition lower_chars :: string where
  "lower_chars = ''abcdefghijklmnopqrstuvwxyz''"

definition digit_chars :: string where
  "digit_chars = ''0123456789''"

text \<open>The ASCII part of \<^verbatim>\<open>\s\<close> and of what \<^verbatim>\<open>trim\<close> strips: tab, line feed, vertical
  tab, form feed, carriage return, space.\<close>

definition space_chars :: string where
  "space_chars = [CHR 0x09, CHR 0x0A, CHR 0x0B, CHR 0x0C, CHR 0x0D, CHR 0x20]"

text \<open>\<^verbatim>\<open>\w\<close>, which \<^verbatim>\<open>\b\<close> is defined by.\<close>

definition word_chars :: string where
  "word_chars = upper_chars @ lower_chars @ digit_chars @ ''_''"

definition lower_char :: "char \<Rightarrow> char" where
  "lower_char c = (case map_of (zip upper_chars lower_chars) c of Some d \<Rightarrow> d | None \<Rightarrow> c)"

definition toLowerCase :: "string \<Rightarrow> string" where
  "toLowerCase s = map lower_char s"

definition trim :: "string \<Rightarrow> string" where
  "trim s = rev (dropWhile (\<lambda>c. c \<in> set space_chars)
     (rev (dropWhile (\<lambda>c. c \<in> set space_chars) s)))"

text \<open>\<^verbatim>\<open>s.split(c)\<close> for a one-character separator: never the empty list.\<close>

fun split :: "char \<Rightarrow> string \<Rightarrow> string list" where
  "split c [] = [[]]"
| "split c (x # xs) =
     (if x = c then [] # split c xs
      else (case split c xs of [] \<Rightarrow> [[x]] | w # ws \<Rightarrow> (x # w) # ws))"

text \<open>\<^verbatim>\<open>parseInt(ds, 10)\<close> on a string of decimal digits.\<close>

definition digit_value :: "char \<Rightarrow> nat" where
  "digit_value c = length (takeWhile (\<lambda>d. d \<noteq> c) digit_chars)"

definition parseInt :: "string \<Rightarrow> nat" where
  "parseInt ds = foldl (\<lambda>n c. 10 * n + digit_value c) 0 ds"

subsection \<open>Regular expressions\<close>

text \<open>
  The fragment of JavaScript regular expressions the script uses: literals, a character
  class, \<^verbatim>\<open>r?\<close>, \<^verbatim>\<open>[class]+\<close>, \<^verbatim>\<open>[class]*\<close>, \<^verbatim>\<open>\b\<close>, one capture group, sequence and
  alternative. \<open>rx_run r s (i, c)\<close> lists, in the order in which a backtracking matcher
  tries them, the states (end position, capture) in which \<open>r\<close> can match \<open>s\<close> from
  position \<open>i\<close>; quantifiers are greedy.
\<close>

datatype rx =
    Lit string
  | Cls string
  | Opt rx
  | Plus string
  | Star string
  | WordB
  | Grp rx
  | Seq rx rx
  | Alt rx rx

definition run_length :: "string \<Rightarrow> string \<Rightarrow> nat \<Rightarrow> nat" where
  "run_length cs s i = length (takeWhile (\<lambda>x. x \<in> set cs) (drop i s))"

definition is_word_at :: "string \<Rightarrow> nat \<Rightarrow> bool" where
  "is_word_at s i = (i < length s \<and> s ! i \<in> set word_chars)"

fun rx_run :: "rx \<Rightarrow> string \<Rightarrow> nat \<times> string option \<Rightarrow> (nat \<times> string option) list" where
  "rx_run (Lit w) s (i, c) =
     (if take (length w) (drop i s) = w then [(i + length w, c)] else [])"
| "rx_run (Cls cs) s (i, c) =
     (if i < length s \<and> s ! i \<in> set cs then [(Suc i, c)] else [])"
| "rx_run (Opt r) s (i, c) = rx_run r s (i, c) @ [(i, c)]"
| "rx_run (Plus cs) s (i, c) = map (\<lambda>k. (i + k, c)) (rev [1 ..< Suc (run_length cs s i)])"
| "rx_run (Star cs) s (i, c) = map (\<lambda>k. (i + k, c)) (rev [0 ..< Suc (run_length cs s i)])"
| "rx_run WordB s (i, c) =
     (if (0 < i \<and> is_word_at s (i - 1)) \<noteq> is_word_at s i then [(i, c)] else [])"
| "rx_run (Grp r) s (i, c) =
     map (\<lambda>(j, _). (j, Some (take (j - i) (drop i s)))) (rx_run r s (i, c))"
| "rx_run (Seq r1 r2) s (i, c) = concat (map (rx_run r2 s) (rx_run r1 s (i, c)))"
| "rx_run (Alt r1 r2) s (i, c) = rx_run r1 s (i, c) @ rx_run r2 s (i, c)"

text \<open>\<^verbatim>\<open>s.match(r)\<close> without the \<^verbatim>\<open>g\<close> flag: the first match from the leftmost start
  position that has one, or \<open>None\<close> for \<^verbatim>\<open>null\<close>. The result is the capture \<^verbatim>\<open>m[1]\<close>.\<close>

definition rx_match :: "rx \<Rightarrow> string \<Rightarrow> string option option" where
  "rx_match r s =
     (case concat (map (\<lambda>i. rx_run r s (i, None)) [0 ..< Suc (length s)]) of
        [] \<Rightarrow> None
      | m # _ \<Rightarrow> Some (snd m))"

text \<open>\<^verbatim>\<open>r.test(s)\<close>.\<close>

definition rx_test :: "rx \<Rightarrow> string \<Rightarrow> bool" where
  "rx_test r s = (rx_match r s \<noteq> None)"

text \<open>Expressions without a capture group.\<close>

fun no_group :: "rx \<Rightarrow> bool" where
  "no_group (Grp r) = False"
| "no_group (Opt r) = no_group r"
| "no_group (Seq a b) = (no_group a \<and> no_group b)"
| "no_group (Alt a b) = (no_group a \<and> no_group b)"
| "no_group _ = True"

fun seqs :: "rx list \<Rightarrow> rx" where
  "seqs [] = Lit []"
| "seqs [r] = r"
| "seqs (r # rs) = Seq r (seqs rs)"

fun alts :: "string list \<Rightarrow> rx" where
  "alts [] = Cls []"
| "alts [w] = Lit w"
| "alts (w # ws) = Alt (Lit w) (alts ws)"

text \<open>\<^verbatim>\<open>/\bp[:= -]?(\d+)\b/\<close>\<close>

definition rx_p :: rx where
  "rx_p = seqs [WordB, Lit ''p'', Opt (Cls '':= -''), Grp (Plus digit_chars), WordB]"

text \<open>\<^verbatim>\<open>/\bpoints?[:= -]?(\d+)\b/\<close>\<close>

definition rx_points :: rx where
  "rx_points = seqs [WordB, Lit ''point'', Opt (Lit ''s''), Opt (Cls '':= -''),
     Grp (Plus digit_chars), WordB]"

text \<open>\<^verbatim>\<open>/\b(\d+)\s*points?\b/\<close>\<close>

definition rx_n_points :: rx where
  "rx_n_points = seqs [WordB, Grp (Plus digit_chars), Star space_chars, Lit ''point'',
     Opt (Lit ''s''), WordB]"

subsection \<open>The task record and the configuration\<close>

text \<open>The object both normalizers build. \<open>title\<close>, \<open>url\<close>, \<open>repo\<close> and \<open>number\<close> hold
  whatever JavaScript value the source gave; \<open>points\<close> is never NaN by construction,
  \<open>progress\<close> can be.\<close>

record task =
  source :: string
  type :: string
  repo :: jsval
  number :: jsval
  title :: jsval
  url :: jsval
  points :: real
  tags :: "string list"
  status :: string
  progress :: jsnum

text \<open>The constants read from the environment. \<open>SUBSET\<close> is the parsed allow-list:
  \<open>None\<close> for \<^verbatim>\<open>null\<close> (the variable is empty), else the members of the \<^verbatim>\<open>Set\<close>.\<close>

record config =
  ORG :: string
  SUBSET :: "string list option"
  NOTION_TOKEN :: string
  NOTION_DB :: string

text \<open>\<^verbatim>\<open>SUBSET.has(v)\<close>: the members are strings, so only an equal string is found.\<close>

definition has :: "string list \<Rightarrow> jsval \<Rightarrow> bool" where
  "has xs v = (case v of JStr s \<Rightarrow> s \<in> set xs | _ \<Rightarrow> False)"

subsection \<open>GitHub\<close>

text \<open>A label is a string or an object with an optional \<^verbatim>\<open>name\<close>:
  \<^verbatim>\<open>typeof l === "string" ? l : l.name || ""\<close>.\<close>

datatype label = LStr string | LObj "string option"

fun label_name :: "label \<Rightarrow> string" where
  "label_name (LStr s) = s"
| "label_name (LObj None) = []"
| "label_name (LObj (Some n)) = n"

text \<open>The three \<^verbatim>\<open>match\<close> calls of \<^verbatim>\<open>parsePoints\<close> on one lower-cased name, in order.\<close>

definition points_match :: "string \<Rightarrow> string option option" where
  "points_match s =
     (case rx_match rx_p s of
        Some m \<Rightarrow> Some m
      | None \<Rightarrow>
          (case rx_match rx_points s of
             Some m \<Rightarrow> Some m
           | None \<Rightarrow> rx_match rx_n_points s))"

text \<open>The group takes part in every match of the three expressions, so \<^verbatim>\<open>m[1]\<close> is
  a string of digits; the branch for a missing capture is never taken.\<close>

fun parsePoints :: "label list \<Rightarrow> nat" where
  "parsePoints [] = 1"
| "parsePoints (l # ls) =
     (case points_match (toLowerCase (label_name l)) of
        Some m \<Rightarrow> max 1 (parseInt (case m of Some ds \<Rightarrow> ds | None \<Rightarrow> []))
      | None \<Rightarrow> parsePoints ls)"

definition guessType :: "label list \<Rightarrow> string \<Rightarrow> string" where
  "guessType labels fallback =
     (let names = map (\<lambda>l. toLowerCase (label_name l)) labels in
      if list_ex (rx_test (alts [''bug'', ''fix'', ''defect''])) names then ''bug''
      else if list_ex (rx_test (alts [''doc'', ''docs''])) names then ''docs''
      else if list_ex (rx_test (alts [''feat'', ''feature'', ''enhancement''])) names then ''feature''
      else if list_ex (rx_test (alts [''infra'', ''ops'', ''devops''])) names then ''infra''
      else if list_ex (rx_test (alts [''task'', ''chore''])) names then ''task''
      else if fallback \<noteq> [] then fallback else ''task'')"

text \<open>\<^verbatim>\<open>takeTags\<close> tests with the first two expressions only (written there without the
  group, which does not change \<^verbatim>\<open>test\<close>) and drops empty names with
  \<^verbatim>\<open>filter(Boolean)\<close>.\<close>

definition takeTags :: "label list \<Rightarrow> string list" where
  "takeTags labels =
     take 6
       (filter (\<lambda>n. \<not> rx_test rx_points (toLowerCase n))
         (filter (\<lambda>n. \<not> rx_test rx_p (toLowerCase n))
           (filter (\<lambda>n. n \<noteq> [])
             (map label_name labels))))"

definition repoFromUrl :: "string \<Rightarrow> string" where
  "repoFromUrl repository_url = last (split CHR ''/'' repository_url)"

text \<open>An item of a search response, with the fields the script reads. \<open>it_labels\<close> is
  optional (\<^verbatim>\<open>it.labels || []\<close>); \<open>it_pull_request\<close> is \<^verbatim>\<open>!!it.pull_request\<close>.\<close>

record gh_item =
  it_repository_url :: string
  it_labels :: "label list option"
  it_pull_request :: bool
  it_state :: string
  it_number :: int
  it_title :: string
  it_html_url :: string

text \<open>The callback of \<^verbatim>\<open>all.map\<close> in \<^verbatim>\<open>fetchGithubTasks\<close>.\<close>

definition ghTask :: "gh_item \<Rightarrow> task" where
  "ghTask it =
     (let labels = (case it_labels it of None \<Rightarrow> [] | Some ls \<Rightarrow> ls);
          isPR = it_pull_request it;
          st = (if it_state it = ''closed'' then ''done'' else ''open'')
      in \<lparr> source = ''github'',
           type = guessType labels (if isPR then ''pr'' else ''issue''),
           repo = JStr (repoFromUrl (it_repository_url it)),
           number = JNum (of_int (it_number it)),
           title = JStr (it_title it),
           url = JStr (it_html_url it),
           points = real (parsePoints labels),
           tags = takeTags labels,
           status = st,
           progress = Fin (if st = ''done'' then 1 else 0) \<rparr>)"

text \<open>
  A Notion property object, by its \<^verbatim>\<open>type\<close>, with the field \<^verbatim>\<open>prop\<close> reads from it:
  the \<^verbatim>\<open>plain_text\<close>s of a title or rich text, the optional \<^verbatim>\<open>url\<close>, the optional
  \<^verbatim>\<open>name\<close> of a select or status, the optional names of a multi-select, the optional
  number, the checkbox. A page has optional \<^verbatim>\<open>properties\<close> and a \<^verbatim>\<open>url\<close>; a query
  response has optional \<^verbatim>\<open>results\<close>, \<^verbatim>\<open>has_more\<close> and \<^verbatim>\<open>next_cursor\<close>.
\<close>

datatype nprop =
    P_title "string list"
  | P_rich_text "string list"
  | P_url "string option"
  | P_select "string option"
  | P_status "string option"
  | P_multi_select "string list option"
  | P_number "real option"
  | P_checkbox bool
  | P_other

record notion_page =
  pg_properties :: "(string \<Rightarrow> nprop option) option"
  pg_url :: string

record notion_data =
  results :: "notion_page list option"
  has_more :: bool
  next_cursor :: "string option"

text \<open>
  The outside world. \<open>gh_get w q page\<close> is the answer to the search request for query
  \<open>q\<close> and page \<open>page\<close> (the URL is fixed by the two, \<^verbatim>\<open>per_page\<close> being constant):
  \<open>Inl\<close> the message of the error thrown on a response that is not ok, else
  \<^verbatim>\<open>data.items\<close>, which may be missing. \<open>notion_post w cursor\<close> is the answer to the
  database query with that \<^verbatim>\<open>start_cursor\<close>.
\<close>

record world =
  gh_get :: "string \<Rightarrow> nat \<Rightarrow> string + gh_item list option"
  notion_post :: "string option \<Rightarrow> string + notion_data"

definition per_page :: nat where
  "per_page = 100"

text \<open>
  The loop of \<^verbatim>\<open>search\<close>, from page \<open>page\<close> on. \<open>all\<close> is the array the items are
  pushed to; the second component is the list of requests sent so far, the observable
  effect of \<^verbatim>\<open>gh_get\<close>.
\<close>

function search_from ::
  "world \<Rightarrow> string \<Rightarrow> nat \<Rightarrow> gh_item list \<Rightarrow> (string \<times> nat) list
     \<Rightarrow> (string + gh_item list) \<times> (string \<times> nat) list" where
  "search_from w q page all sent =
     (if page \<le> 2 then
        (case gh_get w q page of
           Inl e \<Rightarrow> (Inl e, sent @ [(q, page)])
         | Inr data \<Rightarrow>
             (case data of
                None \<Rightarrow> (Inr all, sent @ [(q, page)])
              | Some items \<Rightarrow>
                  if items = [] then (Inr all, sent @ [(q, page)])
                  else if length items < per_page then (Inr (all @ items), sent @ [(q, page)])
                  else search_from w q (Suc page) (all @ items) (sent @ [(q, page)])))
      else (Inr all, sent))"
  by pat_completeness auto
termination
  by (relation "measure (\<lambda>(w, q, page, all, sent). 3 - page)") auto

declare search_from.simps [simp del]

definition search ::
  "world \<Rightarrow> string \<Rightarrow> gh_item list \<Rightarrow> (string \<times> nat) list
     \<Rightarrow> (string + gh_item list) \<times> (string \<times> nat) list" where
  "search w q all sent = search_from w q 1 all sent"

text \<open>\<^verbatim>\<open>return SUBSET ? tasks.filter(t => SUBSET.has(t.repo)) : tasks\<close>\<close>

definition github_subset :: "string list option \<Rightarrow> task list \<Rightarrow> task list" where
  "github_subset sub ts =
     (case sub of None \<Rightarrow> ts | Some xs \<Rightarrow> filter (\<lambda>t. has xs (repo t)) ts)"

definition fetchGithubTasks :: "config \<Rightarrow> world \<Rightarrow> string + task list" where
  "fetchGithubTasks cfg w =
     (case search w (''org:'' @ ORG cfg @ '' is:issue state:open archived:false'') [] [] of
        (Inl e, _) \<Rightarrow> Inl e
      | (Inr all1, sent1) \<Rightarrow>
          (case search w (''org:'' @ ORG cfg @ '' is:pr    state:open archived:false'') all1 sent1 of
             (Inl e, _) \<Rightarrow> Inl e
           | (Inr all2, _) \<Rightarrow> Inr (github_subset (SUBSET cfg) (map ghTask all2))))"

subsection \<open>Notion\<close>

text \<open>\<^verbatim>\<open>prop(p, name)\<close>: a property that is missing, or has no \<^verbatim>\<open>type\<close>, is \<open>None\<close>
  in the map; \<open>P_other\<close> is a property of a type the \<^verbatim>\<open>switch\<close> does not list.\<close>

definition prop_of :: "(string \<Rightarrow> nprop option) \<Rightarrow> string \<Rightarrow> jsval" where
  "prop_of p name =
     (case p name of
        None \<Rightarrow> JUndefined
      | Some v \<Rightarrow>
          (case v of
             P_title ts \<Rightarrow> JStr (trim (join [] ts))
           | P_rich_text ts \<Rightarrow> JStr (trim (join [] ts))
           | P_url u \<Rightarrow> js_or (case u of None \<Rightarrow> JUndefined | Some x \<Rightarrow> JStr x) JUndefined
           | P_select x \<Rightarrow> (case x of None \<Rightarrow> JUndefined | Some n \<Rightarrow> JStr n)
           | P_status x \<Rightarrow> (case x of None \<Rightarrow> JUndefined | Some n \<Rightarrow> JStr n)
           | P_multi_select x \<Rightarrow> (case x of None \<Rightarrow> JArr [] | Some ns \<Rightarrow> JArr ns)
           | P_number x \<Rightarrow> (case x of None \<Rightarrow> JUndefined | Some r \<Rightarrow> JNum r)
           | P_checkbox b \<Rightarrow> JBool b
           | P_other \<Rightarrow> JUndefined))"

definition normRepo :: "runtime \<Rightarrow> jsval \<Rightarrow> jsval" where
  "normRepo rt val =
     (if \<not> truthy val then JUndefined
      else (case val of
              JArr xs \<Rightarrow> (case xs of [] \<Rightarrow> JUndefined | x # _ \<Rightarrow> JStr x)
            | _ \<Rightarrow> JStr (ToString rt val)))"

text \<open>\<open>None\<close> is \<^verbatim>\<open>undefined\<close>. The comparison, the division and \<^verbatim>\<open>Math.min\<close>
  convert \<open>v\<close> to a number.\<close>

definition normProgress :: "runtime \<Rightarrow> jsval \<Rightarrow> jsnum option" where
  "normProgress rt v =
     (if v = JUndefined then None
      else if js_gt (ToNumber rt v) (Fin 1.001)
        then Some (Math_max (Fin 0) (Math_min (Fin 1) (js_div (ToNumber rt v) 100)))
      else Some (Math_max (Fin 0) (Math_min (Fin 1) (ToNumber rt v))))"

text \<open>The check mark U+2705 of the status list, in UTF-8.\<close>

definition check_mark :: string where
  "check_mark = [CHR 0xE2, CHR 0x9C, CHR 0x85]"

text \<open>The body of the \<^verbatim>\<open>for (const page of ...)\<close> loop: the task pushed for one page.\<close>

definition notionTask :: "runtime \<Rightarrow> notion_page \<Rightarrow> task" where
  "notionTask rt page =
     (let p = (case pg_properties page of None \<Rightarrow> (\<lambda>_. None) | Some m \<Rightarrow> m);
          ttl = js_or (prop_of p ''Name'') (JStr ''Untitled'');
          statusN = toLowerCase (ToString rt
            (js_or (js_or (prop_of p ''Status'') (prop_of p ''status'')) (JStr [])));
          dn = (statusN \<in> set [''done'', ''shipped'', ''complete'', ''closed'', check_mark]);
          rp = normRepo rt (js_or (prop_of p ''Repo'') (prop_of p ''Repository''));
          nmb = js_or (prop_of p ''Number'') JUndefined;
          ur = js_or (js_or (prop_of p ''URL'') (prop_of p ''Link'')) (JStr (pg_url page));
          ty = toLowerCase (ToString rt (js_or (prop_of p ''Type'') (JStr ''task'')));
          tgs = js_or (prop_of p ''Tags'') (JArr []);
          pts = js_or (js_or (prop_of p ''Points'') (prop_of p ''pts'')) (JNum 1);
          prog = normProgress rt (prop_of p ''Progress'')
      in \<lparr> source = ''notion'',
           type = ty,
           repo = rp,
           number = nmb,
           title = ttl,
           url = ur,
           points = max 1 (num_or (ToNumber rt pts) 1),
           tags = (case tgs of JArr xs \<Rightarrow> take 6 xs | _ \<Rightarrow> []),
           status = (if dn then ''done'' else ''open''),
           progress = (case prog of None \<Rightarrow> Fin (if dn then 1 else 0) | Some x \<Rightarrow> x) \<rparr>)"

text \<open>The \<^verbatim>\<open>while (true)\<close> loop of \<^verbatim>\<open>fetchNotionTasks\<close>: \<open>None\<close> when it never
  leaves, \<open>Some (Inl e)\<close> when a request throws.\<close>

partial_function (option) notion_loop ::
  "runtime \<Rightarrow> world \<Rightarrow> string option \<Rightarrow> task list \<Rightarrow> (string + task list) option" where
  "notion_loop rt w cursor tasks =
     (case notion_post w cursor of
        Inl e \<Rightarrow> Some (Inl e)
      | Inr data \<Rightarrow>
          (if \<not> has_more data
           then Some (Inr (tasks @ map (notionTask rt)
                        (case results data of None \<Rightarrow> [] | Some ps \<Rightarrow> ps)))
           else notion_loop rt w (next_cursor data)
                  (tasks @ map (notionTask rt)
                     (case results data of None \<Rightarrow> [] | Some ps \<Rightarrow> ps))))"

declare notion_loop.simps [code]

text \<open>\<^verbatim>\<open>return SUBSET ? tasks.filter(t => !t.repo || SUBSET.has(t.repo)) : tasks\<close>\<close>

definition notion_subset :: "string list option \<Rightarrow> task list \<Rightarrow> task list" where
  "notion_subset sub ts =
     (case sub of
        None \<Rightarrow> ts
      | Some xs \<Rightarrow> filter (\<lambda>t. \<not> truthy (repo t) \<or> has xs (repo t)) ts)"

definition fetchNotionTasks :: "config \<Rightarrow> runtime \<Rightarrow> world \<Rightarrow> (string + task list) option" where
  "fetchNotionTasks cfg rt w =
     (if NOTION_TOKEN cfg = [] \<or> NOTION_DB cfg = [] then Some (Inr [])
      else (case notion_loop rt w None [] of
              None \<Rightarrow> None
            | Some (Inl e) \<Rightarrow> Some (Inl e)
            | Some (Inr ts) \<Rightarrow> Some (Inr (notion_subset (SUBSET cfg) ts))))"

subsection \<open>Main\<close>

text \<open>The handler \<^verbatim>\<open>.catch(e => { console.warn(...); return []; })\<close> on each fetch.\<close>

fun catch_warn :: "string + task list \<Rightarrow> task list" where
  "catch_warn (Inl e) = []"
| "catch_warn (Inr ts) = ts"

text \<open>\<^verbatim>\<open>t.points || 0\<close>\<close>

definition points_or_0 :: "task \<Rightarrow> real" where
  "points_or_0 t = (if points t = 0 then 0 else points t)"

text \<open>The object literal \<^verbatim>\<open>totals\<close>, as its list of keys and values.\<close>

definition totals_of :: "task list \<Rightarrow> (string \<times> real) list" where
  "totals_of ts =
     [(''open'', real (length (filter (\<lambda>t. status t \<noteq> ''done'') ts))),
      (''done'', real (length (filter (\<lambda>t. status t = ''done'') ts))),
      (''xp'', foldl (\<lambda>s t. s + points_or_0 t) 0 (filter (\<lambda>t. status t = ''done'') ts))]"

record payload =
  generatedAt :: string
  totals :: "(string \<times> real) list"
  tasks :: "task list"

text \<open>
  The body of the script: both fetches settle, their failures are replaced by \<open>[]\<close>, and
  the payload is what \<^verbatim>\<open>writeFile\<close> is given. \<open>now\<close> is \<^verbatim>\<open>new Date().toISOString()\<close>.
  The result is \<open>None\<close> when the Notion loop never returns. (The check of
  \<^verbatim>\<open>GH_TOKEN\<close> that ends the process comes before this body; writing the file is
  outside the model.)
\<close>

definition main :: "config \<Rightarrow> runtime \<Rightarrow> world \<Rightarrow> string \<Rightarrow> payload option" where
  "main cfg rt w now =
     (case fetchNotionTasks cfg rt w of
        None \<Rightarrow> None
      | Some n \<Rightarrow>
          (let gh = catch_warn (fetchGithubTasks cfg w);
               notion = catch_warn n;
               ts = gh @ notion
           in Some \<lparr> generatedAt = now, totals = totals_of ts, tasks = ts \<rparr>))"

subsection \<open>Example inputs\<close>

text \<open>An open issue of \<open>repoA\<close> labelled \<open>bug\<close> and \<open>p:3\<close>, and a closed pull request of
  \<open>repoB\<close> labelled \<open>feature\<close>.\<close>

definition ex_issue :: gh_item where
  "ex_issue = \<lparr> it_repository_url = ''https://api.github.com/repos/jai-nexus/repoA'',
      it_labels = Some [LObj (Some ''bug''), LObj (Some ''p:3'')],
      it_pull_request = False, it_state = ''open'', it_number = 7,
      it_title = ''Crash on start'',
      it_html_url = ''https://github.com/jai-nexus/repoA/issues/7'' \<rparr>"

definition ex_pr :: gh_item where
  "ex_pr = \<lparr> it_repository_url = ''https://api.github.com/repos/jai-nexus/repoB'',
      it_labels = Some [LObj (Some ''feature'')],
      it_pull_request = True, it_state = ''closed'', it_number = 8,
      it_title = ''Add export'',
      it_html_url = ''https://github.com/jai-nexus/repoB/pull/8'' \<rparr>"

definition ex_cfg :: config where
  "ex_cfg = \<lparr> ORG = ''jai-nexus'', SUBSET = None, NOTION_TOKEN = ''secret'', NOTION_DB = ''db'' \<rparr>"

definition ex_cfgA :: config where
  "ex_cfgA = ex_cfg \<lparr> SUBSET := Some [''repoA''] \<rparr>"

text \<open>Three Notion pages: without a repository, of \<open>repoA\<close>, and of \<open>repoa\<close>.\<close>

definition ex_page_norepo :: notion_page where
  "ex_page_norepo = \<lparr> pg_properties = Some (map_of
       [(''Name'', P_title [''Write '', ''docs'']), (''Status'', P_status (Some ''Done''))]),
     pg_url = ''https://www.notion.so/1'' \<rparr>"

definition ex_page_repoA :: notion_page where
  "ex_page_repoA = \<lparr> pg_properties = Some (map_of
       [(''Name'', P_title [''Fix login'']), (''Repo'', P_select (Some ''repoA''))]),
     pg_url = ''https://www.notion.so/2'' \<rparr>"

definition ex_page_repoa :: notion_page where
  "ex_page_repoa = \<lparr> pg_properties = Some (map_of
       [(''Name'', P_title [''Tidy up'']), (''Repo'', P_rich_text [''repoa''])]),
     pg_url = ''https://www.notion.so/3'' \<rparr>"

text \<open>Pages with a \<open>Type\<close> of \<open>Epic\<close>, with a \<open>Progress\<close> of 1.0005, and with a
  \<open>Progress\<close> written as the text \<open>50%\<close>.\<close>

definition ex_page_epic :: notion_page where
  "ex_page_epic = \<lparr> pg_properties = Some (map_of
       [(''Name'', P_title [''Billing'']), (''Type'', P_select (Some ''Epic''))]),
     pg_url = ''https://www.notion.so/4'' \<rparr>"

definition ex_page_progress :: notion_page where
  "ex_page_progress = \<lparr> pg_properties = Some (map_of
       [(''Name'', P_title [''Almost'']), (''Progress'', P_number (Some (2001 / 2000)))]),
     pg_url = ''https://www.notion.so/5'' \<rparr>"

definition ex_page_percent :: notion_page where
  "ex_page_percent = \<lparr> pg_properties = Some (map_of
       [(''Name'', P_title [''Half'']), (''Progress'', P_rich_text [''50%''])]),
     pg_url = ''https://www.notion.so/6'' \<rparr>"

text \<open>A page whose name is blank, and one whose \<open>Name\<close> is a multi-select with nothing
  selected.\<close>

definition ex_page_multi :: notion_page where
  "ex_page_multi = \<lparr> pg_properties = Some (map_of [(''Name'', P_multi_select (Some []))]),
     pg_url = ''https://www.notion.so/8'' \<rparr>"

definition ex_page_blank :: notion_page where
  "ex_page_blank = \<lparr> pg_properties = Some (map_of [(''Name'', P_title ['' '', ''  ''])]),
     pg_url = ''https://www.notion.so/7'' \<rparr>"

text \<open>A world in which the issue search finds \<open>ex_issue\<close>, the pull request search finds
  \<open>ex_pr\<close>, and Notion answers 401; one in which Notion answers with the three pages; and
  one in which every search has a full first page and three items on the second.\<close>

definition ex_world :: world where
  "ex_world = \<lparr> gh_get = (\<lambda>q page.
       if q = ''org:jai-nexus is:issue state:open archived:false''
       then Inr (Some [ex_issue]) else Inr (Some [ex_pr])),
     notion_post = (\<lambda>c. Inl ''Notion 401'') \<rparr>"

definition ex_world_notion :: world where
  "ex_world_notion = ex_world \<lparr> notion_post := (\<lambda>c. Inr
       \<lparr> results = Some [ex_page_norepo, ex_page_repoA, ex_page_repoa],
         has_more = False, next_cursor = None \<rparr>) \<rparr>"

definition ex_world_pages :: world where
  "ex_world_pages = ex_world \<lparr> gh_get := (\<lambda>q page.
       if page = 1 then Inr (Some (replicate 100 ex_issue))
       else Inr (Some (replicate 3 ex_pr))) \<rparr>"

section \<open>Properties\<close>

subsection \<open>Auxiliary facts\<close>

text \<open>An expression without a group leaves the capture as it is, so in a sequence that
  holds a group every match has a capture.\<close>

lemma no_group_keeps: "no_group r \<Longrightarrow> x \<in> set (rx_run r s (i, c)) \<Longrightarrow> snd x = c"
proof (induction r arbitrary: i c x)
  case (Lit w)
  then show ?case by (simp split: if_splits)
next
  case (Cls cs)
  then show ?case by (simp split: if_splits)
next
  case (Opt r)
  then show ?case by (cases x) auto
next
  case (Plus cs)
  then show ?case by (cases x) auto
next
  case (Star cs)
  then show ?case by (cases x) auto
next
  case WordB
  then show ?case by (simp split: if_splits)
next
  case (Grp r)
  then show ?case by simp
next
  case (Seq r1 r2)
  from Seq.prems(2) obtain y where y: "y \<in> set (rx_run r1 s (i, c))" and x: "x \<in> set (rx_run r2 s y)"
    by auto
  from Seq.prems(1) have n1: "no_group r1" and n2: "no_group r2" by simp_all
  from Seq.IH(1)[OF n1 y] have "snd y = c" .
  moreover from Seq.IH(2)[OF n2, of x "fst y" "snd y"] x have "snd x = snd y" by simp
  ultimately show ?case by simp
next
  case (Alt r1 r2)
  then show ?case by (cases x) auto
qed

lemma grp_sets: "x \<in> set (rx_run (Grp r) s st) \<Longrightarrow> snd x \<noteq> None"
  by (cases st) auto

lemma seq_elem:
  "x \<in> set (rx_run (Seq r1 r2) s st) \<Longrightarrow> \<exists>y \<in> set (rx_run r1 s st). x \<in> set (rx_run r2 s y)"
  by (cases st) auto

lemma seq_no_group_after:
  assumes "x \<in> set (rx_run (Seq r1 r2) s st)" "no_group r2"
    and "\<And>y. y \<in> set (rx_run r1 s st) \<Longrightarrow> snd y \<noteq> None"
  shows "snd x \<noteq> None"
proof -
  from seq_elem[OF assms(1)] obtain y where y: "y \<in> set (rx_run r1 s st)" and x: "x \<in> set (rx_run r2 s y)"
    by blast
  from no_group_keeps[OF assms(2), of x s "fst y" "snd y"] x have "snd x = snd y" by simp
  with assms(3)[OF y] show ?thesis by simp
qed

lemma seq_any_before:
  assumes "x \<in> set (rx_run (Seq r1 r2) s st)"
    and "\<And>y z. z \<in> set (rx_run r2 s y) \<Longrightarrow> snd z \<noteq> None"
  shows "snd x \<noteq> None"
  using seq_elem[OF assms(1)] assms(2) by blast

lemma cap_p: "x \<in> set (rx_run rx_p s st) \<Longrightarrow> snd x \<noteq> None"
  unfolding rx_p_def seqs.simps
  apply (erule seq_any_before)
  apply (erule seq_any_before)
  apply (erule seq_any_before)
  apply (erule seq_no_group_after)
   apply simp
  apply (erule grp_sets)
  done

lemma cap_points: "x \<in> set (rx_run rx_points s st) \<Longrightarrow> snd x \<noteq> None"
  unfolding rx_points_def seqs.simps
  apply (erule seq_any_before)
  apply (erule seq_any_before)
  apply (erule seq_any_before)
  apply (erule seq_any_before)
  apply (erule seq_no_group_after)
   apply simp
  apply (erule grp_sets)
  done

lemma cap_n_points: "x \<in> set (rx_run rx_n_points s st) \<Longrightarrow> snd x \<noteq> None"
  unfolding rx_n_points_def seqs.simps
  apply (erule seq_any_before)
  apply (erule seq_no_group_after)
   apply simp
  apply (erule grp_sets)
  done

lemma rx_match_cap:
  assumes "\<And>x st. x \<in> set (rx_run r s st) \<Longrightarrow> snd x \<noteq> None"
  shows "rx_match r s \<noteq> Some None"
proof
  assume "rx_match r s = Some None"
  then obtain m ms where "concat (map (\<lambda>i. rx_run r s (i, None)) [0 ..< Suc (length s)]) = m # ms"
    and n: "snd m = None"
    by (auto simp: rx_match_def split: list.splits)
  then have "m \<in> set (concat (map (\<lambda>i. rx_run r s (i, None)) [0 ..< Suc (length s)]))" by simp
  then obtain i where "m \<in> set (rx_run r s (i, None))" by auto
  from assms[OF this] n show False by simp
qed

text \<open>In \<open>parsePoints\<close> the capture of a match is never missing.\<close>

lemma points_match_cap: "points_match s \<noteq> Some None"
  using rx_match_cap[of rx_p s, OF cap_p] rx_match_cap[of rx_points s, OF cap_points]
    rx_match_cap[of rx_n_points s, OF cap_n_points]
  by (auto simp: points_match_def split: option.splits)

lemma foldl_points: "foldl (\<lambda>s t. s + points_or_0 t) a ts = a + sum_list (map points ts)"
  by (induction ts arbitrary: a) (auto simp: points_or_0_def)

lemma length_partition:
  "length (filter (\<lambda>t. status t \<noteq> d) ts) + length (filter (\<lambda>t. status t = d) ts) = length ts"
  by (induction ts) auto

lemma totals_of_fields:
  "map fst (totals_of ts) = [''open'', ''done'', ''xp'']
   \<and> map_of (totals_of ts) ''open'' = Some (real (length (filter (\<lambda>t. status t \<noteq> ''done'') ts)))
   \<and> map_of (totals_of ts) ''done'' = Some (real (length (filter (\<lambda>t. status t = ''done'') ts)))
   \<and> map_of (totals_of ts) ''xp'' = Some (sum_list (map points (filter (\<lambda>t. status t = ''done'') ts)))"
  by (simp add: totals_of_def foldl_points)

text \<open>What the Notion loop returns is what it was given, followed by normalized pages.\<close>

lemma notion_loop_appends_aux:
  assumes "notion_loop rt w c acc = Some y"
  shows "\<forall>ts. y = Inr ts \<longrightarrow> (\<exists>pages. ts = acc @ map (notionTask rt) pages)"
proof (induct rule: notion_loop.raw_induct [OF _ assms])
  case (1 f rt w c acc y)
  show ?case
  proof (cases "notion_post w c")
    case (Inl e)
    with 1(2) have "y = Inl e" by simp
    then show ?thesis by simp
  next
    case (Inr data)
    let ?new = "map (notionTask rt) (case results data of None \<Rightarrow> [] | Some ps \<Rightarrow> ps)"
    show ?thesis
    proof (cases "has_more data")
      case False
      with 1(2) Inr have "y = Inr (acc @ ?new)" by simp
      then show ?thesis by blast
    next
      case True
      with 1(2) Inr have "f rt w (next_cursor data) (acc @ ?new) = Some y" by simp
      from 1(1)[OF this] have ih:
        "\<forall>ts. y = Inr ts \<longrightarrow> (\<exists>pages. ts = (acc @ ?new) @ map (notionTask rt) pages)" .
      show ?thesis
      proof (intro allI impI)
        fix ts assume "y = Inr ts"
        with ih obtain pages
          where "ts = (acc @ ?new) @ map (notionTask rt) pages" by blast
        then have "ts = acc @ map (notionTask rt)
            ((case results data of None \<Rightarrow> [] | Some ps \<Rightarrow> ps) @ pages)" by simp
        then show "\<exists>pages. ts = acc @ map (notionTask rt) pages" by blast
      qed
    qed
  qed
qed

lemma notion_loop_appends:
  "notion_loop rt w c acc = Some (Inr ts) \<Longrightarrow> \<exists>pages. ts = acc @ map (notionTask rt) pages"
  using notion_loop_appends_aux by blast

lemma github_subset_subset: "set (github_subset sub ts) \<subseteq> set ts"
  by (auto simp: github_subset_def split: option.splits)

lemma notion_subset_subset: "set (notion_subset sub ts) \<subseteq> set ts"
  by (auto simp: notion_subset_def split: option.splits)

lemma fetchGithubTasks_origin:
  assumes "fetchGithubTasks cfg w = Inr ts"
  shows "\<exists>items. ts = github_subset (SUBSET cfg) (map ghTask items)"
  using assms
  by (auto simp: fetchGithubTasks_def split: prod.splits sum.splits)

lemma fetchNotionTasks_origin:
  assumes "fetchNotionTasks cfg rt w = Some (Inr ts)"
  shows "\<exists>pages. ts = notion_subset (SUBSET cfg) (map (notionTask rt) pages) \<or> ts = []"
proof (cases "NOTION_TOKEN cfg = [] \<or> NOTION_DB cfg = []")
  case True
  with assms show ?thesis by (simp add: fetchNotionTasks_def)
next
  case False
  with assms obtain raw where raw: "notion_loop rt w None [] = Some (Inr raw)"
    and ts: "ts = notion_subset (SUBSET cfg) raw"
    by (auto simp: fetchNotionTasks_def split: option.splits sum.splits)
  from notion_loop_appends[OF raw] obtain pages where "raw = map (notionTask rt) pages"
    by auto
  with ts show ?thesis by blast
qed

lemma main_tasks:
  assumes "main cfg rt w now = Some p"
  shows "\<exists>n. fetchNotionTasks cfg rt w = Some n
     \<and> p = \<lparr> generatedAt = now,
             totals = totals_of (catch_warn (fetchGithubTasks cfg w) @ catch_warn n),
             tasks = catch_warn (fetchGithubTasks cfg w) @ catch_warn n \<rparr>"
  using assms by (auto simp: main_def Let_def split: option.splits)

text \<open>Every task of a payload was built by one of the two normalizers.\<close>

lemma main_task_origin:
  assumes "main cfg rt w now = Some p" and "t \<in> set (tasks p)"
  shows "(\<exists>it. t = ghTask it) \<or> (\<exists>page. t = notionTask rt page)"
proof -
  from main_tasks[OF assms(1)] obtain n where n: "fetchNotionTasks cfg rt w = Some n"
    and tp: "tasks p = catch_warn (fetchGithubTasks cfg w) @ catch_warn n"
    by auto
  from assms(2) tp consider (gh) "t \<in> set (catch_warn (fetchGithubTasks cfg w))"
    | (notion) "t \<in> set (catch_warn n)" by auto
  then show ?thesis
  proof cases
    case gh
    then obtain ts where ts: "fetchGithubTasks cfg w = Inr ts" and t: "t \<in> set ts"
      by (cases "fetchGithubTasks cfg w") auto
    from fetchGithubTasks_origin[OF ts] obtain items
      where "ts = github_subset (SUBSET cfg) (map ghTask items)" by blast
    with t github_subset_subset have "t \<in> set (map ghTask items)" by blast
    then show ?thesis by auto
  next
    case notion
    then obtain ts where ts: "n = Inr ts" and t: "t \<in> set ts"
      by (cases n) auto
    from fetchNotionTasks_origin n ts obtain pages
      where "ts = notion_subset (SUBSET cfg) (map (notionTask rt) pages) \<or> ts = []" by blast
    with t notion_subset_subset have "t \<in> set (map (notionTask rt) pages)" by fastforce
    then show ?thesis by auto
  qed
qed

lemma ghTask_status: "status (ghTask it) = ''open'' \<or> status (ghTask it) = ''done''"
  by (simp add: ghTask_def Let_def)

lemma notionTask_status:
  "status (notionTask rt page) = ''open'' \<or> status (notionTask rt page) = ''done''"
  by (simp add: notionTask_def Let_def)

text \<open>The two example tasks, and the runs in the example worlds.\<close>

lemma ghTask_ex_issue:
  "ghTask ex_issue = \<lparr> source = ''github'', type = ''bug'', repo = JStr ''repoA'',
     number = JNum 7, title = JStr ''Crash on start'',
     url = JStr ''https://github.com/jai-nexus/repoA/issues/7'',
     points = 3, tags = [''bug''], status = ''open'', progress = Fin 0 \<rparr>"
  by code_simp

lemma ghTask_ex_pr:
  "ghTask ex_pr = \<lparr> source = ''github'', type = ''feature'', repo = JStr ''repoB'',
     number = JNum 8, title = JStr ''Add export'',
     url = JStr ''https://github.com/jai-nexus/repoB/pull/8'',
     points = 1, tags = [''feature''], status = ''done'', progress = Fin 1 \<rparr>"
  by code_simp

lemma fetchGithubTasks_ex: "fetchGithubTasks ex_cfg ex_world = Inr [ghTask ex_issue, ghTask ex_pr]"
  by code_simp

lemma fetchNotionTasks_ex: "fetchNotionTasks ex_cfg rt ex_world = Some (Inl ''Notion 401'')"
  by (simp add: fetchNotionTasks_def ex_cfg_def ex_world_def notion_loop.simps)

lemma totals_of_ex:
  "totals_of [ghTask ex_issue, ghTask ex_pr] = [(''open'', 1), (''done'', 1), (''xp'', 1)]"
  by (simp add: totals_of_def ghTask_ex_issue ghTask_ex_pr points_or_0_def)

lemma main_ex:
  "main ex_cfg rt ex_world now =
     Some \<lparr> generatedAt = now, totals = [(''open'', 1), (''done'', 1), (''xp'', 1)],
            tasks = [ghTask ex_issue, ghTask ex_pr] \<rparr>"
  by (simp add: main_def fetchNotionTasks_ex fetchGithubTasks_ex totals_of_ex)

subsection \<open>Totals\<close>

text \<open>
  Claim C10. For every run that writes a payload, \<open>totals.open\<close> plus \<open>totals.done\<close> is
  the length of the payload's \<open>tasks\<close>: every task's status is \<open>open\<close> or \<open>done\<close>, so
  each task is counted in exactly one of the two.
\<close>

theorem C10_open_plus_done:
  assumes "main cfg rt w now = Some p"
  shows "\<exists>a b. map_of (totals p) ''open'' = Some a \<and> map_of (totals p) ''done'' = Some b
     \<and> a + b = real (length (tasks p))
     \<and> a = real (length (filter (\<lambda>t. status t = ''open'') (tasks p)))
     \<and> b = real (length (filter (\<lambda>t. status t = ''done'') (tasks p)))
     \<and> (\<forall>t \<in> set (tasks p). status t = ''open'' \<or> status t = ''done'')"
proof -
  from main_tasks[OF assms] have tot: "totals p = totals_of (tasks p)" by auto
  have st: "\<forall>t \<in> set (tasks p). status t = ''open'' \<or> status t = ''done''"
    using main_task_origin[OF assms] ghTask_status notionTask_status by blast
  then have "filter (\<lambda>t. status t \<noteq> ''done'') (tasks p)
      = filter (\<lambda>t. status t = ''open'') (tasks p)"
    by (intro filter_cong) auto
  moreover have "real (length (filter (\<lambda>t. status t \<noteq> ''done'') (tasks p)))
      + real (length (filter (\<lambda>t. status t = ''done'') (tasks p))) = real (length (tasks p))"
    using length_partition[of "''done''" "tasks p"] by (metis of_nat_add)
  ultimately show ?thesis using tot st totals_of_fields[of "tasks p"] by simp
qed

theorem C10_open_plus_done_witness:
  "\<forall>rt. \<exists>p. main ex_cfg rt ex_world ''2025-01-01T00:00:00.000Z'' = Some p
     \<and> length (tasks p) = 2
     \<and> (\<exists>a b. map_of (totals p) ''open'' = Some a \<and> map_of (totals p) ''done'' = Some b
           \<and> a + b = 2)"
proof
  fix rt
  let ?p = "\<lparr> generatedAt = ''2025-01-01T00:00:00.000Z'',
     totals = [(''open'', 1), (''done'', 1), (''xp'', 1)],
     tasks = [ghTask ex_issue, ghTask ex_pr] \<rparr>"
  have run: "main ex_cfg rt ex_world ''2025-01-01T00:00:00.000Z'' = Some ?p"
    by (rule main_ex)
  from C10_open_plus_done[OF run] obtain a b
    where "map_of (totals ?p) ''open'' = Some a" and "map_of (totals ?p) ''done'' = Some b"
      and "a + b = real (length (tasks ?p))" by blast
  then have "\<exists>a b. map_of (totals ?p) ''open'' = Some a \<and> map_of (totals ?p) ''done'' = Some b
      \<and> a + b = 2" by simp
  with run show "\<exists>p. main ex_cfg rt ex_world ''2025-01-01T00:00:00.000Z'' = Some p
     \<and> length (tasks p) = 2
     \<and> (\<exists>a b. map_of (totals p) ''open'' = Some a \<and> map_of (totals p) ''done'' = Some b
           \<and> a + b = 2)"
    by (intro exI[of _ ?p]) simp
qed

text \<open>
  Claim C1, as amended. The totals object has exactly the fields \<open>open\<close>, \<open>done\<close> and
  \<open>xp\<close> (there is no field \<open>score\<close>): \<open>open\<close> counts the tasks whose status is not
  \<open>done\<close>, \<open>done\<close> counts those whose status is \<open>done\<close>, and \<open>xp\<close> is the sum of the
  points of the tasks whose status is \<open>done\<close>. The payload's totals are those of its
  tasks.
\<close>

theorem C1_totals_fields:
  "map fst (totals_of ts) = [''open'', ''done'', ''xp'']
   \<and> map_of (totals_of ts) ''open'' = Some (real (length (filter (\<lambda>t. status t \<noteq> ''done'') ts)))
   \<and> map_of (totals_of ts) ''done'' = Some (real (length (filter (\<lambda>t. status t = ''done'') ts)))
   \<and> map_of (totals_of ts) ''xp'' = Some (sum_list (map points (filter (\<lambda>t. status t = ''done'') ts)))
   \<and> (\<forall>p. main cfg rt w now = Some p \<longrightarrow> totals p = totals_of (tasks p))"
proof -
  have "\<forall>p. main cfg rt w now = Some p \<longrightarrow> totals p = totals_of (tasks p)"
    using main_tasks by fastforce
  with totals_of_fields[of ts] show ?thesis by simp
qed

theorem C1_totals_fields_witness:
  "\<forall>rt. \<exists>p. main ex_cfg rt ex_world ''2025-01-01T00:00:00.000Z'' = Some p
     \<and> totals p = totals_of (tasks p)
     \<and> map fst (totals p) = [''open'', ''done'', ''xp'']
     \<and> map_of (totals p) ''xp'' = Some 1"
proof
  fix rt
  let ?p = "\<lparr> generatedAt = ''2025-01-01T00:00:00.000Z'',
     totals = [(''open'', 1), (''done'', 1), (''xp'', 1)],
     tasks = [ghTask ex_issue, ghTask ex_pr] \<rparr>"
  have run: "main ex_cfg rt ex_world ''2025-01-01T00:00:00.000Z'' = Some ?p"
    by (rule main_ex)
  from C1_totals_fields[of "tasks ?p" ex_cfg rt ex_world "''2025-01-01T00:00:00.000Z''"] run
  have "totals ?p = totals_of (tasks ?p)" by blast
  with run show "\<exists>p. main ex_cfg rt ex_world ''2025-01-01T00:00:00.000Z'' = Some p
     \<and> totals p = totals_of (tasks p)
     \<and> map fst (totals p) = [''open'', ''done'', ''xp'']
     \<and> map_of (totals p) ''xp'' = Some 1"
    by (intro exI[of _ ?p]) (simp add: totals_of_ex)
qed

text \<open>The totals of the two example tasks have no field \<open>score\<close>; the sum is under
  \<open>xp\<close>.\<close>

theorem C1_score_counterexample:
  "map_of (totals_of [ghTask ex_issue, ghTask ex_pr]) ''score'' = None
   \<and> map_of (totals_of [ghTask ex_issue, ghTask ex_pr]) ''xp'' = Some 1
   \<and> map fst (totals_of [ghTask ex_issue, ghTask ex_pr]) \<noteq> [''open'', ''done'', ''score'']"
  by (simp add: totals_of_ex)

subsection \<open>Degrading a failed source\<close>

lemma main_degraded_notion:
  assumes "NOTION_TOKEN cfg = [] \<or> NOTION_DB cfg = [] \<or> fetchNotionTasks cfg rt w = Some (Inl e)"
  shows "main cfg rt w now = Some \<lparr> generatedAt = now,
           totals = totals_of (catch_warn (fetchGithubTasks cfg w)),
           tasks = catch_warn (fetchGithubTasks cfg w) \<rparr>"
proof -
  from assms have "fetchNotionTasks cfg rt w = Some (Inr []) \<or> fetchNotionTasks cfg rt w = Some (Inl e)"
    by (auto simp: fetchNotionTasks_def)
  then show ?thesis by (auto simp: main_def Let_def)
qed

lemma fetchNotionTasks_unreachable:
  assumes "NOTION_TOKEN cfg \<noteq> []" "NOTION_DB cfg \<noteq> []" "notion_post w None = Inl e"
  shows "fetchNotionTasks cfg rt w = Some (Inl e)"
  using assms by (simp add: fetchNotionTasks_def notion_loop.simps)

text \<open>
  Claim C2. A fetch that fails, and a Notion source without credentials, contribute the
  empty sequence, and the run still produces a payload. When Notion has no token or no
  database id, or its fetch fails (as it does when the first request is answered with an
  error), the payload's tasks are exactly what the GitHub fetch returned (nothing if that
  failed too) and the totals are those of these tasks. When the GitHub fetch fails and the
  Notion fetch returns, the payload holds the Notion tasks alone.
\<close>

theorem C2_degrade:
  "(NOTION_TOKEN cfg = [] \<or> NOTION_DB cfg = [] \<longrightarrow> fetchNotionTasks cfg rt w = Some (Inr []))
   \<and> (NOTION_TOKEN cfg \<noteq> [] \<and> NOTION_DB cfg \<noteq> [] \<and> notion_post w None = Inl e
        \<longrightarrow> fetchNotionTasks cfg rt w = Some (Inl e))
   \<and> (NOTION_TOKEN cfg = [] \<or> NOTION_DB cfg = [] \<or> fetchNotionTasks cfg rt w = Some (Inl e)
        \<longrightarrow> (\<forall>g. fetchGithubTasks cfg w = Inr g
               \<longrightarrow> main cfg rt w now = Some \<lparr> generatedAt = now, totals = totals_of g, tasks = g \<rparr>)
          \<and> (\<forall>e'. fetchGithubTasks cfg w = Inl e'
               \<longrightarrow> main cfg rt w now = Some \<lparr> generatedAt = now, totals = totals_of [], tasks = [] \<rparr>))
   \<and> (\<forall>e' ts. fetchGithubTasks cfg w = Inl e' \<and> fetchNotionTasks cfg rt w = Some (Inr ts)
        \<longrightarrow> main cfg rt w now = Some \<lparr> generatedAt = now, totals = totals_of ts, tasks = ts \<rparr>)"
proof (intro conjI impI allI)
  assume "NOTION_TOKEN cfg = [] \<or> NOTION_DB cfg = []"
  then show "fetchNotionTasks cfg rt w = Some (Inr [])" by (auto simp: fetchNotionTasks_def)
next
  assume "NOTION_TOKEN cfg \<noteq> [] \<and> NOTION_DB cfg \<noteq> [] \<and> notion_post w None = Inl e"
  then show "fetchNotionTasks cfg rt w = Some (Inl e)"
    using fetchNotionTasks_unreachable by blast
next
  fix g
  assume "NOTION_TOKEN cfg = [] \<or> NOTION_DB cfg = [] \<or> fetchNotionTasks cfg rt w = Some (Inl e)"
    and "fetchGithubTasks cfg w = Inr g"
  then show "main cfg rt w now = Some \<lparr> generatedAt = now, totals = totals_of g, tasks = g \<rparr>"
    using main_degraded_notion[of cfg rt w e now] by simp
next
  fix e'
  assume "NOTION_TOKEN cfg = [] \<or> NOTION_DB cfg = [] \<or> fetchNotionTasks cfg rt w = Some (Inl e)"
    and "fetchGithubTasks cfg w = Inl e'"
  then show "main cfg rt w now = Some \<lparr> generatedAt = now, totals = totals_of [], tasks = [] \<rparr>"
    using main_degraded_notion[of cfg rt w e now] by simp
next
  fix e' ts
  assume "fetchGithubTasks cfg w = Inl e' \<and> fetchNotionTasks cfg rt w = Some (Inr ts)"
  then show "main cfg rt w now = Some \<lparr> generatedAt = now, totals = totals_of ts, tasks = ts \<rparr>"
    by (simp add: main_def)
qed

theorem C2_degrade_witness:
  "\<forall>rt. fetchNotionTasks ex_cfg rt ex_world = Some (Inl ''Notion 401'')
     \<and> fetchGithubTasks ex_cfg ex_world = Inr [ghTask ex_issue, ghTask ex_pr]
     \<and> main ex_cfg rt ex_world ''2025-01-01T00:00:00.000Z''
         = Some \<lparr> generatedAt = ''2025-01-01T00:00:00.000Z'',
                  totals = totals_of [ghTask ex_issue, ghTask ex_pr],
                  tasks = [ghTask ex_issue, ghTask ex_pr] \<rparr>"
proof
  fix rt
  have cfgd: "NOTION_TOKEN ex_cfg \<noteq> [] \<and> NOTION_DB ex_cfg \<noteq> [] \<and> notion_post ex_world None = Inl ''Notion 401''"
    by (simp add: ex_cfg_def ex_world_def)
  note c2 = C2_degrade[of ex_cfg rt ex_world "''Notion 401''" "''2025-01-01T00:00:00.000Z''"]
  from c2 cfgd have n: "fetchNotionTasks ex_cfg rt ex_world = Some (Inl ''Notion 401'')" by blast
  from c2 n fetchGithubTasks_ex
  have "main ex_cfg rt ex_world ''2025-01-01T00:00:00.000Z''
         = Some \<lparr> generatedAt = ''2025-01-01T00:00:00.000Z'',
                  totals = totals_of [ghTask ex_issue, ghTask ex_pr],
                  tasks = [ghTask ex_issue, ghTask ex_pr] \<rparr>" by blast
  with n fetchGithubTasks_ex
  show "fetchNotionTasks ex_cfg rt ex_world = Some (Inl ''Notion 401'')
     \<and> fetchGithubTasks ex_cfg ex_world = Inr [ghTask ex_issue, ghTask ex_pr]
     \<and> main ex_cfg rt ex_world ''2025-01-01T00:00:00.000Z''
         = Some \<lparr> generatedAt = ''2025-01-01T00:00:00.000Z'',
                  totals = totals_of [ghTask ex_issue, ghTask ex_pr],
                  tasks = [ghTask ex_issue, ghTask ex_pr] \<rparr>" by blast
qed

subsection \<open>Paging of the GitHub search\<close>

lemma search_from_3: "search_from w q 3 all sent = (Inr all, sent)"
  by (subst search_from.simps) simp

lemma search_from_2: "search_from w q 2 all sent =
  (case gh_get w q 2 of
     Inl e \<Rightarrow> (Inl e, sent @ [(q, 2)])
   | Inr data \<Rightarrow> (Inr (all @ (case data of None \<Rightarrow> [] | Some items \<Rightarrow> items)), sent @ [(q, 2)]))"
  by (subst search_from.simps) (simp add: search_from_3 split: sum.splits option.splits)

text \<open>The loop of \<open>search\<close>, unrolled.\<close>

lemma search_unroll: "search w q all sent =
  (case gh_get w q 1 of
     Inl e \<Rightarrow> (Inl e, sent @ [(q, 1)])
   | Inr data \<Rightarrow>
       (let i1 = (case data of None \<Rightarrow> [] | Some items \<Rightarrow> items) in
        if length i1 < per_page then (Inr (all @ i1), sent @ [(q, 1)])
        else (case gh_get w q 2 of
                Inl e \<Rightarrow> (Inl e, sent @ [(q, 1), (q, 2)])
              | Inr data2 \<Rightarrow>
                  (Inr (all @ i1 @ (case data2 of None \<Rightarrow> [] | Some items \<Rightarrow> items)),
                   sent @ [(q, 1), (q, 2)]))))"
  unfolding search_def
  by (subst search_from.simps)
     (auto simp add: numeral_2_eq_2[symmetric] search_from_2 per_page_def Let_def
        split: sum.splits option.splits)

text \<open>
  Claim C9. One search sends the request for page 1, and the request for page 2 exactly
  when page 1 came back with at least \<open>per_page = 100\<close> items; it never sends a third.
  When no page holds more than \<open>per_page\<close> items, a search that returns has added at
  most 200 items.
\<close>

theorem C9_search_pages:
  assumes "search w q all sent = (r, sent')"
  shows "per_page = 100
    \<and> (sent' = sent @ [(q, 1)] \<or> sent' = sent @ [(q, 1), (q, 2)])
    \<and> (sent' = sent @ [(q, 1), (q, 2)]
         \<longleftrightarrow> (\<exists>items. gh_get w q 1 = Inr (Some items) \<and> per_page \<le> length items))
    \<and> ((\<forall>page items. gh_get w q page = Inr (Some items) \<longrightarrow> length items \<le> per_page)
         \<longrightarrow> (\<forall>all'. r = Inr all'
               \<longrightarrow> (\<exists>new. all' = all @ new \<and> length new \<le> 2 * per_page)))"
proof (intro conjI)
  show "per_page = 100" by (simp add: per_page_def)
next
  from assms show "sent' = sent @ [(q, 1)] \<or> sent' = sent @ [(q, 1), (q, 2)]"
    by (auto simp: search_unroll Let_def split: sum.splits if_splits)
next
  from assms show "sent' = sent @ [(q, 1), (q, 2)]
         \<longleftrightarrow> (\<exists>items. gh_get w q 1 = Inr (Some items) \<and> per_page \<le> length items)"
    by (auto simp: search_unroll Let_def per_page_def split: sum.splits if_splits option.splits)
next
  show "(\<forall>page items. gh_get w q page = Inr (Some items) \<longrightarrow> length items \<le> per_page)
         \<longrightarrow> (\<forall>all'. r = Inr all'
               \<longrightarrow> (\<exists>new. all' = all @ new \<and> length new \<le> 2 * per_page))"
  proof (intro impI allI)
    fix all'
    assume sz: "\<forall>page items. gh_get w q page = Inr (Some items) \<longrightarrow> length items \<le> per_page"
      and r: "r = Inr all'"
    have b: "length (case d of None \<Rightarrow> [] | Some items \<Rightarrow> items) \<le> per_page"
      if "gh_get w q page = Inr d" for page d
      using sz that by (cases d) auto
    from assms r show "\<exists>new. all' = all @ new \<and> length new \<le> 2 * per_page"
      using b[of 1] b[of 2]
      by (auto simp: search_unroll Let_def split: sum.splits if_splits)
  qed
qed

lemma search_ex_pages:
  "search ex_world_pages q [] [] =
     (Inr (replicate 100 ex_issue @ replicate 3 ex_pr), [(q, 1), (q, 2)])"
  by (simp add: search_unroll ex_world_pages_def per_page_def)

theorem C9_search_pages_witness:
  "search ex_world_pages ''org:jai-nexus is:issue state:open archived:false'' [] []
     = (Inr (replicate 100 ex_issue @ replicate 3 ex_pr),
        [(''org:jai-nexus is:issue state:open archived:false'', 1),
         (''org:jai-nexus is:issue state:open archived:false'', 2)])
   \<and> (\<exists>items. gh_get ex_world_pages ''org:jai-nexus is:issue state:open archived:false'' 1
          = Inr (Some items) \<and> per_page \<le> length items)
   \<and> (\<exists>new. replicate 100 ex_issue @ replicate 3 ex_pr = [] @ new \<and> length new \<le> 2 * per_page)"
proof -
  let ?q = "''org:jai-nexus is:issue state:open archived:false''"
  have run: "search ex_world_pages ?q [] []
     = (Inr (replicate 100 ex_issue @ replicate 3 ex_pr), [(?q, 1), (?q, 2)])"
    by (rule search_ex_pages)
  have sz: "\<forall>page items. gh_get ex_world_pages ?q page = Inr (Some items)
      \<longrightarrow> length items \<le> per_page"
    by (auto simp: ex_world_pages_def per_page_def split: if_splits)
  note c9 = C9_search_pages[OF run]
  from c9 have "\<exists>items. gh_get ex_world_pages ?q 1 = Inr (Some items) \<and> per_page \<le> length items"
    by simp
  moreover from c9 sz
  have "\<exists>new. replicate 100 ex_issue @ replicate 3 ex_pr = [] @ new \<and> length new \<le> 2 * per_page"
    by blast
  ultimately show ?thesis using run by blast
qed

subsection \<open>The allow-list\<close>

lemma fetchGithubTasks_subset:
  "fetchGithubTasks cfg w =
     map_sum id (github_subset (SUBSET cfg)) (fetchGithubTasks (cfg \<lparr> SUBSET := None \<rparr>) w)"
  by (simp add: fetchGithubTasks_def github_subset_def split: prod.splits sum.splits)

lemma fetchNotionTasks_subset:
  "fetchNotionTasks cfg rt w =
     map_option (map_sum id (notion_subset (SUBSET cfg)))
       (fetchNotionTasks (cfg \<lparr> SUBSET := None \<rparr>) rt w)"
  by (simp add: fetchNotionTasks_def notion_subset_def split: option.splits sum.splits)

lemma github_subset_Some: "github_subset (Some xs) = filter (\<lambda>t. has xs (repo t))"
  by (rule ext) (simp add: github_subset_def)

lemma notion_subset_Some:
  "notion_subset (Some xs) = filter (\<lambda>t. \<not> truthy (repo t) \<or> has xs (repo t))"
  by (rule ext) (simp add: notion_subset_def)

lemma has_iff: "has xs v \<longleftrightarrow> (\<exists>s. v = JStr s \<and> s \<in> set xs)"
  by (cases v) (simp_all add: has_def)

text \<open>The items a search adds come from the responses to its requests.\<close>

lemma search_items:
  assumes "search w q all sent = (Inr all', sent')"
  shows "set all' \<subseteq> set all
     \<union> {it. \<exists>q page items. gh_get w q page = Inr (Some items) \<and> it \<in> set items}"
proof (cases "gh_get w q 1")
  case (Inl e)
  with assms show ?thesis by (simp add: search_unroll)
next
  case (Inr d1)
  let ?R = "{it. \<exists>q page items. gh_get w q page = Inr (Some items) \<and> it \<in> set items}"
  have i1: "set (case d1 of None \<Rightarrow> [] | Some items \<Rightarrow> items) \<subseteq> ?R"
    using Inr by (cases d1) auto
  show ?thesis
  proof (cases "length (case d1 of None \<Rightarrow> [] | Some items \<Rightarrow> items) < per_page")
    case True
    with assms Inr have "all' = all @ (case d1 of None \<Rightarrow> [] | Some items \<Rightarrow> items)"
      by (simp add: search_unroll Let_def)
    with i1 show ?thesis by auto
  next
    case False
    show ?thesis
    proof (cases "gh_get w q 2")
      case (Inl e)
      with assms Inr False show ?thesis by (simp add: search_unroll Let_def)
    next
      case d2: (Inr d2)
      have i2: "set (case d2 of None \<Rightarrow> [] | Some items \<Rightarrow> items) \<subseteq> ?R"
        using d2 by (cases d2) auto
      from assms Inr False d2
      have "all' = all @ (case d1 of None \<Rightarrow> [] | Some items \<Rightarrow> items)
          @ (case d2 of None \<Rightarrow> [] | Some items \<Rightarrow> items)"
        by (simp add: search_unroll Let_def)
      with i1 i2 show ?thesis by auto
    qed
  qed
qed

text \<open>When every item of every response names a repository, every task of the unfiltered
  GitHub fetch has a repo.\<close>

lemma fetchGithubTasks_has_repo:
  assumes named: "\<forall>q page items it. gh_get w q page = Inr (Some items) \<and> it \<in> set items
       \<longrightarrow> repoFromUrl (it_repository_url it) \<noteq> []"
    and run: "fetchGithubTasks (cfg \<lparr> SUBSET := None \<rparr>) w = Inr ts"
    and t: "t \<in> set ts"
  shows "truthy (repo t)"
proof -
  let ?q1 = "''org:'' @ ORG cfg @ '' is:issue state:open archived:false''"
  let ?q2 = "''org:'' @ ORG cfg @ '' is:pr    state:open archived:false''"
  from run obtain all1 sent1 all2 sent2
    where s1: "search w ?q1 [] [] = (Inr all1, sent1)"
      and s2: "search w ?q2 all1 sent1 = (Inr all2, sent2)"
      and ts: "ts = map ghTask all2"
    by (auto simp: fetchGithubTasks_def github_subset_def split: prod.splits sum.splits)
  from t ts obtain it where it: "it \<in> set all2" and tt: "t = ghTask it" by auto
  from search_items[OF s1] have "set all1
      \<subseteq> {it. \<exists>q page items. gh_get w q page = Inr (Some items) \<and> it \<in> set items}"
    by simp
  with search_items[OF s2] it
  have "it \<in> {it. \<exists>q page items. gh_get w q page = Inr (Some items) \<and> it \<in> set items}"
    by blast
  then obtain q page items where "gh_get w q page = Inr (Some items)" and "it \<in> set items"
    by blast
  with named have "repoFromUrl (it_repository_url it) \<noteq> []" by blast
  with tt show ?thesis by (simp add: ghTask_def Let_def)
qed

text \<open>
  Claim C3. With an allow-list \<open>xs\<close> configured, each fetch returns, in the same order,
  the tasks of the unfiltered fetch that have no repo or whose repo is a member of \<open>xs\<close>,
  and no others; membership is equality of strings. For Notion this is what the filter
  tests. The GitHub filter tests membership alone, which is the same on every response
  whose items name their repository (a repository URL with a non-empty last segment).
  Without an allow-list neither filter removes anything.
\<close>

theorem C3_allow_list:
  "(SUBSET cfg = Some xs \<longrightarrow>
      fetchNotionTasks cfg rt w =
        map_option (map_sum id (filter (\<lambda>t. \<not> truthy (repo t) \<or> has xs (repo t))))
          (fetchNotionTasks (cfg \<lparr> SUBSET := None \<rparr>) rt w)
    \<and> fetchGithubTasks cfg w =
        map_sum id (filter (\<lambda>t. has xs (repo t))) (fetchGithubTasks (cfg \<lparr> SUBSET := None \<rparr>) w)
    \<and> ((\<forall>q page items it. gh_get w q page = Inr (Some items) \<and> it \<in> set items
            \<longrightarrow> repoFromUrl (it_repository_url it) \<noteq> [])
        \<longrightarrow> fetchGithubTasks cfg w =
              map_sum id (filter (\<lambda>t. \<not> truthy (repo t) \<or> has xs (repo t)))
                (fetchGithubTasks (cfg \<lparr> SUBSET := None \<rparr>) w)))
   \<and> (has xs v \<longleftrightarrow> (\<exists>s. v = JStr s \<and> s \<in> set xs))
   \<and> github_subset None ts = ts \<and> notion_subset None ts = ts"
proof -
  have n: "fetchNotionTasks cfg rt w =
        map_option (map_sum id (filter (\<lambda>t. \<not> truthy (repo t) \<or> has xs (repo t))))
          (fetchNotionTasks (cfg \<lparr> SUBSET := None \<rparr>) rt w)"
    if "SUBSET cfg = Some xs"
    using fetchNotionTasks_subset[of cfg rt w] that by (simp add: notion_subset_Some)
  have g: "fetchGithubTasks cfg w =
        map_sum id (filter (\<lambda>t. has xs (repo t))) (fetchGithubTasks (cfg \<lparr> SUBSET := None \<rparr>) w)"
    if "SUBSET cfg = Some xs"
    using fetchGithubTasks_subset[of cfg w] that by (simp add: github_subset_Some)
  have g': "fetchGithubTasks cfg w =
        map_sum id (filter (\<lambda>t. \<not> truthy (repo t) \<or> has xs (repo t)))
          (fetchGithubTasks (cfg \<lparr> SUBSET := None \<rparr>) w)"
    if sub: "SUBSET cfg = Some xs"
      and named: "\<forall>q page items it. gh_get w q page = Inr (Some items) \<and> it \<in> set items
            \<longrightarrow> repoFromUrl (it_repository_url it) \<noteq> []"
  proof (cases "fetchGithubTasks (cfg \<lparr> SUBSET := None \<rparr>) w")
    case (Inl e)
    with g[OF sub] show ?thesis by simp
  next
    case (Inr us)
    have "filter (\<lambda>t. has xs (repo t)) us
        = filter (\<lambda>t. \<not> truthy (repo t) \<or> has xs (repo t)) us"
      using fetchGithubTasks_has_repo[OF named Inr] by (intro filter_cong) auto
    with g[OF sub] Inr show ?thesis by simp
  qed
  have "github_subset None ts = ts" "notion_subset None ts = ts"
    by (simp_all add: github_subset_def notion_subset_def)
  with n g g' show ?thesis using has_iff[of xs v] by blast
qed

lemma repo_ex_pages:
  "repo (notionTask rt ex_page_norepo) = JUndefined"
  "repo (notionTask rt ex_page_repoA) = JStr ''repoA''"
  "repo (notionTask rt ex_page_repoa) = JStr ''repoa''"
  by (simp_all add: notionTask_def Let_def prop_of_def normRepo_def js_or_def trim_def
      space_chars_def ex_page_norepo_def ex_page_repoA_def ex_page_repoa_def)

lemma fetchNotionTasks_ex_notion:
  "fetchNotionTasks ex_cfg rt ex_world_notion =
     Some (Inr [notionTask rt ex_page_norepo, notionTask rt ex_page_repoA,
                notionTask rt ex_page_repoa])"
  by (simp add: fetchNotionTasks_def ex_cfg_def ex_world_notion_def notion_loop.simps
      notion_subset_def)

lemma fetchGithubTasks_ex_notion:
  "fetchGithubTasks ex_cfg ex_world_notion = Inr [ghTask ex_issue, ghTask ex_pr]"
  by code_simp

lemma repoFromUrl_ex:
  "repoFromUrl (it_repository_url ex_issue) = ''repoA''"
  "repoFromUrl (it_repository_url ex_pr) = ''repoB''"
  by code_simp+

theorem C3_allow_list_witness:
  "\<forall>rt. SUBSET ex_cfgA = Some [''repoA'']
     \<and> (\<forall>q page items it. gh_get ex_world_notion q page = Inr (Some items) \<and> it \<in> set items
            \<longrightarrow> repoFromUrl (it_repository_url it) \<noteq> [])
     \<and> fetchGithubTasks ex_cfgA ex_world_notion = Inr [ghTask ex_issue]
     \<and> fetchNotionTasks ex_cfgA rt ex_world_notion =
         Some (Inr [notionTask rt ex_page_norepo, notionTask rt ex_page_repoA])"
proof
  fix rt
  have sub: "SUBSET ex_cfgA = Some [''repoA'']" and un: "ex_cfgA \<lparr> SUBSET := None \<rparr> = ex_cfg"
    by (simp_all add: ex_cfgA_def ex_cfg_def)
  have named: "\<forall>q page items it. gh_get ex_world_notion q page = Inr (Some items) \<and> it \<in> set items
            \<longrightarrow> repoFromUrl (it_repository_url it) \<noteq> []"
    by (auto simp: ex_world_notion_def ex_world_def repoFromUrl_ex split: if_splits)
  note c3 = C3_allow_list[of ex_cfgA "[''repoA'']" rt ex_world_notion]
  from c3 sub named have
    g: "fetchGithubTasks ex_cfgA ex_world_notion =
        map_sum id (filter (\<lambda>t. \<not> truthy (repo t) \<or> has [''repoA''] (repo t)))
          (fetchGithubTasks (ex_cfgA \<lparr> SUBSET := None \<rparr>) ex_world_notion)"
    and n: "fetchNotionTasks ex_cfgA rt ex_world_notion =
        map_option (map_sum id (filter (\<lambda>t. \<not> truthy (repo t) \<or> has [''repoA''] (repo t))))
          (fetchNotionTasks (ex_cfgA \<lparr> SUBSET := None \<rparr>) rt ex_world_notion)"
    by blast+
  from g have "fetchGithubTasks ex_cfgA ex_world_notion = Inr [ghTask ex_issue]"
    by (simp add: un fetchGithubTasks_ex_notion ghTask_ex_issue ghTask_ex_pr has_def)
  moreover from n have "fetchNotionTasks ex_cfgA rt ex_world_notion =
         Some (Inr [notionTask rt ex_page_norepo, notionTask rt ex_page_repoA])"
    by (simp add: un fetchNotionTasks_ex_notion repo_ex_pages has_def)
  ultimately show "SUBSET ex_cfgA = Some [''repoA'']
     \<and> (\<forall>q page items it. gh_get ex_world_notion q page = Inr (Some items) \<and> it \<in> set items
            \<longrightarrow> repoFromUrl (it_repository_url it) \<noteq> [])
     \<and> fetchGithubTasks ex_cfgA ex_world_notion = Inr [ghTask ex_issue]
     \<and> fetchNotionTasks ex_cfgA rt ex_world_notion =
         Some (Inr [notionTask rt ex_page_norepo, notionTask rt ex_page_repoA])"
    using sub named by blast
qed

subsection \<open>Progress\<close>

text \<open>
  Claim C4, as amended. For a page whose \<open>Progress\<close> property is a number \<open>v\<close>, the
  task's progress is \<open>v / 100\<close> clamped to \<open>[0, 1]\<close> when \<open>v > 1.001\<close>, and \<open>v\<close> clamped
  to \<open>[0, 1]\<close> otherwise. When the page supplies no value for \<open>Progress\<close>, the progress is
  1 for a task whose status is \<open>done\<close> and 0 otherwise.
\<close>

theorem C4_progress:
  "(p ''Progress'' = Some (P_number (Some v)) \<longrightarrow>
      progress (notionTask rt \<lparr> pg_properties = Some p, pg_url = u \<rparr>)
        = Fin (if v > 1.001 then max 0 (min 1 (v / 100)) else max 0 (min 1 v)))
   \<and> (prop_of p ''Progress'' = JUndefined \<longrightarrow>
      progress (notionTask rt \<lparr> pg_properties = Some p, pg_url = u \<rparr>)
        = Fin (if status (notionTask rt \<lparr> pg_properties = Some p, pg_url = u \<rparr>) = ''done''
               then 1 else 0))"
  by (simp add: notionTask_def Let_def prop_of_def normProgress_def)

lemma progress_ex:
  "progress (notionTask rt ex_page_progress) = Fin 1"
  "progress (notionTask rt ex_page_norepo) = Fin 1"
  "progress (notionTask rt ex_page_repoA) = Fin 0"
  by (simp_all add: notionTask_def Let_def prop_of_def normProgress_def js_or_def
     trim_def space_chars_def toLowerCase_def lower_char_def upper_chars_def lower_chars_def
     check_mark_def ex_page_progress_def ex_page_norepo_def ex_page_repoA_def)

theorem C4_progress_witness:
  "\<forall>rt. progress (notionTask rt ex_page_progress) = Fin 1
     \<and> progress (notionTask rt ex_page_norepo) = Fin 1"
proof
  fix rt
  let ?p = "map_of [(''Name'', P_title [''Almost'']), (''Progress'', P_number (Some (2001 / 2000)))]"
  let ?q = "map_of [(''Name'', P_title [''Write '', ''docs'']), (''Status'', P_status (Some ''Done''))]"
  have "?p ''Progress'' = Some (P_number (Some (2001 / 2000)))" by simp
  with C4_progress[of ?p "2001 / 2000" rt "''https://www.notion.so/5''"]
  have a: "progress (notionTask rt ex_page_progress) = Fin 1"
    by (simp add: ex_page_progress_def)
  have "prop_of ?q ''Progress'' = JUndefined" by (simp add: prop_of_def)
  with C4_progress[of ?q _ rt "''https://www.notion.so/1''"]
  have "progress (notionTask rt ex_page_norepo)
     = Fin (if status (notionTask rt ex_page_norepo) = ''done'' then 1 else 0)"
    by (simp add: ex_page_norepo_def)
  moreover have "status (notionTask rt ex_page_norepo) = ''done''"
    by (simp add: notionTask_def Let_def prop_of_def js_or_def
     trim_def space_chars_def toLowerCase_def lower_char_def upper_chars_def lower_chars_def
     ex_page_norepo_def)
  ultimately show "progress (notionTask rt ex_page_progress) = Fin 1
     \<and> progress (notionTask rt ex_page_norepo) = Fin 1" using a by simp
qed

text \<open>The value 1.0005 is greater than 1, yet it is clamped to 1, not divided by 100.\<close>

theorem C4_threshold_counterexample:
  "(1 :: real) < 2001 / 2000
   \<and> (\<forall>rt. progress (notionTask rt ex_page_progress) = Fin 1)
   \<and> Fin 1 \<noteq> Fin (max 0 (min 1 ((2001 / 2000) / 100)))"
  by (simp add: progress_ex)

subsection \<open>Tags\<close>

text \<open>When no label matches the third points expression alone, the tags are the
  non-empty label names that match none of the three expressions, cut to 6.\<close>

lemma takeTags_without_n_points:
  assumes "\<And>l. l \<in> set labels \<Longrightarrow> rx_test rx_n_points (toLowerCase (label_name l))
     \<Longrightarrow> rx_test rx_p (toLowerCase (label_name l))
        \<or> rx_test rx_points (toLowerCase (label_name l))"
  shows "takeTags labels =
     take 6 (filter (\<lambda>n. n \<noteq> [] \<and> \<not> rx_test rx_p (toLowerCase n)
         \<and> \<not> rx_test rx_points (toLowerCase n) \<and> \<not> rx_test rx_n_points (toLowerCase n))
       (map label_name labels))"
proof -
  have "filter (\<lambda>n. \<not> rx_test rx_points (toLowerCase n))
         (filter (\<lambda>n. \<not> rx_test rx_p (toLowerCase n))
           (filter (\<lambda>n. n \<noteq> []) (map label_name labels)))
     = filter (\<lambda>n. n \<noteq> [] \<and> \<not> rx_test rx_p (toLowerCase n)
         \<and> \<not> rx_test rx_points (toLowerCase n) \<and> \<not> rx_test rx_n_points (toLowerCase n))
       (map label_name labels)"
    unfolding filter_filter using assms by (intro filter_cong) auto
  then show ?thesis by (simp add: takeTags_def)
qed

text \<open>
  Claim C5, on the labels \<open>bug\<close> and \<open>5 points\<close>. The label \<open>5 points\<close> matches the third
  points expression and \<open>parsePoints\<close> reads 5 points from it, but \<open>takeTags\<close> keeps it
  among the tags; the label \<open>p:5\<close> is removed.
\<close>

theorem C5_takeTags_keeps_n_points:
  "takeTags [LObj (Some ''bug''), LObj (Some ''5 points'')] = [''bug'', ''5 points'']
   \<and> parsePoints [LObj (Some ''bug''), LObj (Some ''5 points'')] = 5
   \<and> rx_test rx_n_points (toLowerCase ''5 points'')
   \<and> takeTags [LObj (Some ''bug''), LObj (Some ''p:5'')] = [''bug'']"
  by code_simp

subsection \<open>Titles\<close>

lemma notionTask_title:
  "title (notionTask rt page) =
     js_or (prop_of (case pg_properties page of None \<Rightarrow> (\<lambda>_. None) | Some m \<Rightarrow> m) ''Name'')
       (JStr ''Untitled'')"
  by (simp add: notionTask_def Let_def)

text \<open>The GitHub normalizer copies the item's title. The Notion normalizer yields the
  value of the \<open>Name\<close> property when that is truthy and the placeholder \<open>Untitled\<close>
  otherwise; for a \<open>Name\<close> that is a title or a rich text, the title is a non-empty
  string.\<close>

lemma title_cases:
  "title (ghTask it) = JStr (it_title it)
   \<and> truthy (title (notionTask rt page))
   \<and> (\<not> truthy (prop_of p ''Name'') \<longrightarrow>
        title (notionTask rt \<lparr> pg_properties = Some p, pg_url = u \<rparr>) = JStr ''Untitled'')
   \<and> (truthy (prop_of p ''Name'') \<longrightarrow>
        title (notionTask rt \<lparr> pg_properties = Some p, pg_url = u \<rparr>) = prop_of p ''Name'')
   \<and> (\<forall>ts. p ''Name'' = Some (P_title ts) \<or> p ''Name'' = Some (P_rich_text ts) \<longrightarrow>
        (\<exists>s. title (notionTask rt \<lparr> pg_properties = Some p, pg_url = u \<rparr>) = JStr s \<and> s \<noteq> []))"
proof (intro conjI impI allI)
  show "title (ghTask it) = JStr (it_title it)" by (simp add: ghTask_def Let_def)
  show "truthy (title (notionTask rt page))" by (simp add: notionTask_title js_or_def)
  show "title (notionTask rt \<lparr> pg_properties = Some p, pg_url = u \<rparr>) = JStr ''Untitled''"
    if "\<not> truthy (prop_of p ''Name'')"
    using that by (simp add: notionTask_title js_or_def)
  show "title (notionTask rt \<lparr> pg_properties = Some p, pg_url = u \<rparr>) = prop_of p ''Name''"
    if "truthy (prop_of p ''Name'')"
    using that by (simp add: notionTask_title js_or_def)
  show "\<exists>s. title (notionTask rt \<lparr> pg_properties = Some p, pg_url = u \<rparr>) = JStr s \<and> s \<noteq> []"
    if "p ''Name'' = Some (P_title ts) \<or> p ''Name'' = Some (P_rich_text ts)" for ts
    using that by (auto simp: notionTask_title js_or_def prop_of_def)
qed

text \<open>
  Claim C6, on a page whose \<open>Name\<close> property is a multi-select with nothing selected.
  The page provides no title, yet the task's title is the empty array and not the
  placeholder: an array is truthy, so \<^verbatim>\<open>prop(p, "Name") || "Untitled"\<close> keeps it. A page
  whose \<open>Name\<close> is a blank title gets the placeholder.
\<close>

theorem C6_title_multi_select:
  "\<forall>rt. title (notionTask rt ex_page_multi) = JArr []
     \<and> title (notionTask rt ex_page_blank) = JStr ''Untitled''"
  by (simp add: notionTask_title js_or_def prop_of_def trim_def space_chars_def
      ex_page_multi_def ex_page_blank_def)

subsection \<open>Types\<close>

lemma notionTask_type:
  "type (notionTask rt page) =
     toLowerCase (ToString rt
       (js_or (prop_of (case pg_properties page of None \<Rightarrow> (\<lambda>_. None) | Some m \<Rightarrow> m) ''Type'')
          (JStr ''task'')))"
  by (simp add: notionTask_def Let_def)

lemma toLowerCase_task: "toLowerCase ''task'' = ''task''"
  by code_simp

text \<open>
  Claim C7, as amended. The type of a GitHub task is one of \<open>bug\<close>, \<open>docs\<close>,
  \<open>feature\<close>, \<open>infra\<close>, \<open>task\<close>, \<open>pr\<close>, \<open>issue\<close>. The type of a Notion task is the
  lower-cased text of the page's \<open>Type\<close> property, whatever it is, and \<open>task\<close> when the
  page has none.
\<close>

theorem C7_type:
  "type (ghTask it) \<in> set [''bug'', ''docs'', ''feature'', ''infra'', ''task'', ''pr'', ''issue'']
   \<and> (\<not> truthy (prop_of p ''Type'') \<longrightarrow>
        type (notionTask rt \<lparr> pg_properties = Some p, pg_url = u \<rparr>) = ''task'')
   \<and> (\<forall>s. prop_of p ''Type'' = JStr s \<and> s \<noteq> [] \<longrightarrow>
        type (notionTask rt \<lparr> pg_properties = Some p, pg_url = u \<rparr>) = toLowerCase s)"
proof (intro conjI impI allI)
  show "type (ghTask it) \<in> set [''bug'', ''docs'', ''feature'', ''infra'', ''task'', ''pr'', ''issue'']"
    by (simp add: ghTask_def guessType_def Let_def)
  show "type (notionTask rt \<lparr> pg_properties = Some p, pg_url = u \<rparr>) = ''task''"
    if "\<not> truthy (prop_of p ''Type'')"
    using that by (simp add: notionTask_type js_or_def toLowerCase_task)
  show "type (notionTask rt \<lparr> pg_properties = Some p, pg_url = u \<rparr>) = toLowerCase s"
    if "prop_of p ''Type'' = JStr s \<and> s \<noteq> []" for s
    using that by (simp add: notionTask_type js_or_def)
qed

lemma toLowerCase_Epic: "toLowerCase ''Epic'' = ''epic''"
  by code_simp

theorem C7_type_witness:
  "\<forall>rt. type (ghTask ex_issue) = ''bug''
     \<and> type (notionTask rt ex_page_epic) = ''epic''
     \<and> type (notionTask rt ex_page_norepo) = ''task''"
proof
  fix rt
  let ?e = "map_of [(''Name'', P_title [''Billing'']), (''Type'', P_select (Some ''Epic''))]"
  let ?n = "map_of [(''Name'', P_title [''Write '', ''docs'']), (''Status'', P_status (Some ''Done''))]"
  have e: "prop_of ?e ''Type'' = JStr ''Epic''" and n: "\<not> truthy (prop_of ?n ''Type'')"
    by (simp_all add: prop_of_def)
  from C7_type[of ex_issue ?e rt "''https://www.notion.so/4''"] e
  have "type (notionTask rt ex_page_epic) = ''epic''"
    by (simp add: ex_page_epic_def toLowerCase_Epic)
  moreover from C7_type[of ex_issue ?n rt "''https://www.notion.so/1''"] n
  have "type (notionTask rt ex_page_norepo) = ''task''"
    by (simp add: ex_page_norepo_def)
  moreover have "type (ghTask ex_issue) = ''bug''" by (simp add: ghTask_ex_issue)
  ultimately show "type (ghTask ex_issue) = ''bug''
     \<and> type (notionTask rt ex_page_epic) = ''epic''
     \<and> type (notionTask rt ex_page_norepo) = ''task''" by simp
qed

text \<open>A Notion page of type \<open>Epic\<close> gives a task of type \<open>epic\<close>.\<close>

theorem C7_notion_counterexample:
  "(\<forall>rt. type (notionTask rt ex_page_epic) = ''epic'')
   \<and> ''epic'' \<notin> set [''bug'', ''docs'', ''feature'', ''infra'', ''task'', ''pr'', ''issue'']"
  by (simp add: notionTask_type js_or_def prop_of_def ex_page_epic_def toLowerCase_Epic)

subsection \<open>Bounds on points, tags and progress\<close>

text \<open>Points are at least 1 and there are at most 6 tags, for both normalizers. The
  progress of a GitHub task is 0 or 1; that of a Notion task is in \<open>[0, 1]\<close> or NaN.\<close>

lemma parsePoints_ge_1: "1 \<le> parsePoints labels"
  by (induction labels) (auto split: option.splits)

lemma ghTask_bounds:
  "1 \<le> points (ghTask it) \<and> length (tags (ghTask it)) \<le> 6
   \<and> (progress (ghTask it) = Fin 0 \<or> progress (ghTask it) = Fin 1)"
  using parsePoints_ge_1[of "case it_labels it of None \<Rightarrow> [] | Some ls \<Rightarrow> ls"]
  by (simp add: ghTask_def Let_def takeTags_def)

lemma clamp_cases:
  "Math_max (Fin 0) (Math_min (Fin 1) x) = NaN
   \<or> (\<exists>r. Math_max (Fin 0) (Math_min (Fin 1) x) = Fin r \<and> 0 \<le> r \<and> r \<le> 1)"
  by (cases x) auto

lemma notionTask_bounds:
  "1 \<le> points (notionTask rt page) \<and> length (tags (notionTask rt page)) \<le> 6
   \<and> (progress (notionTask rt page) = NaN
       \<or> (\<exists>r. progress (notionTask rt page) = Fin r \<and> 0 \<le> r \<and> r \<le> 1))"
proof (intro conjI)
  show "1 \<le> points (notionTask rt page)" by (simp add: notionTask_def Let_def)
  show "length (tags (notionTask rt page)) \<le> 6"
    by (simp add: notionTask_def Let_def split: jsval.splits)
  let ?v = "prop_of (case pg_properties page of None \<Rightarrow> (\<lambda>_. None) | Some m \<Rightarrow> m) ''Progress''"
  have p: "progress (notionTask rt page) =
     (case normProgress rt ?v of None \<Rightarrow> Fin (if status (notionTask rt page) = ''done'' then 1 else 0)
      | Some x \<Rightarrow> x)"
    by (simp add: notionTask_def Let_def)
  show "progress (notionTask rt page) = NaN
       \<or> (\<exists>r. progress (notionTask rt page) = Fin r \<and> 0 \<le> r \<and> r \<le> 1)"
  proof (cases "normProgress rt ?v")
    case None
    with p show ?thesis by simp
  next
    case (Some x)
    then have "x = Math_max (Fin 0) (Math_min (Fin 1) (js_div (ToNumber rt ?v) 100))
       \<or> x = Math_max (Fin 0) (Math_min (Fin 1) (ToNumber rt ?v))"
      by (auto simp: normProgress_def split: if_splits)
    with clamp_cases p Some show ?thesis by (metis option.simps(5))
  qed
qed

text \<open>
  Claim C8, on a page whose \<open>Progress\<close> property is the text \<open>50%\<close>. The task's progress
  is NaN exactly when the runtime converts the string \<open>50%\<close> to NaN, which is what
  \<^verbatim>\<open>Number("50%")\<close> gives in JavaScript: the progress is then not within \<open>[0, 1]\<close>.
\<close>

theorem C8_progress_nan:
  "\<forall>rt. (progress (notionTask rt ex_page_percent) = NaN) = (StringToNumber rt ''50%'' = NaN)"
proof
  fix rt
  have "progress (notionTask rt ex_page_percent) =
      (if js_gt (StringToNumber rt ''50%'') (Fin 1.001)
       then Math_max (Fin 0) (Math_min (Fin 1) (js_div (StringToNumber rt ''50%'') 100))
       else Math_max (Fin 0) (Math_min (Fin 1) (StringToNumber rt ''50%'')))"
    by (simp add: notionTask_def Let_def prop_of_def normProgress_def trim_def space_chars_def
        ex_page_percent_def)
  then show "(progress (notionTask rt ex_page_percent) = NaN) = (StringToNumber rt ''50%'' = NaN)"
    by (cases "StringToNumber rt ''50%''") auto
qed

end
